theory Spec2Isabelle
  imports Main "HOL-Library.DAList"
begin

section \<open>Python values and exceptions\<close>

text \<open>
  Exceptions are values.  \<open>ValueError\<close>, \<open>KeyError\<close>, \<open>TypeError\<close> and
  \<open>IndexError\<close> are the ones the repository's own statements raise; \<open>External e\<close>
  is any exception \<open>e\<close> that comes out of a call into a library or into a module of
  the repository that is not modelled here (image codecs, the network, the loader).
\<close>

datatype 'e error = ValueError string | KeyError string | TypeError | IndexError | External 'e

text \<open>The values found in an image's metadata dict.\<close>

datatype pyval = PNone | PInt int | PBool bool | PStr string

text \<open>
  A metadata dict is only read and written by key, never iterated: a map.
\<close>

type_synonym meta = "string \<rightharpoonup> pyval"

text \<open>
  A dict that is iterated (\<open>kwargs.items()\<close>) is an association list with distinct
  keys (\<open>DAList\<close>): \<open>DAList.update\<close> replaces the value of a present key in place
  and appends an absent one, as \<open>d[k] = v\<close> does, and \<open>DAList.impl_of\<close> is
  \<open>d.items()\<close> in insertion order.
\<close>

type_synonym 'v dict = "(string, 'v) alist"


section \<open>nunif/models/model.py\<close>

text \<open>
  \<open>class Model\<close>: the attribute \<open>name\<close> of the class and the two attributes set
  by \<open>__init__\<close>.  The values held in \<open>kwargs\<close> are arbitrary Python objects,
  the type parameter \<open>'v\<close>.  \<open>updated_at = None\<close> is \<open>None\<close> here, any other
  object \<open>Some v\<close>.
\<close>

record 'v Model =
  name :: string
  kwargs :: "'v dict"
  updated_at :: "'v option"

text \<open>
  \<open>register_kwargs\<close> (model.py 15-18): the loop over \<open>kwargs.items()\<close>
  (\<open>register_items\<close>), storing every entry whose name is not in \<open>{"self"}\<close>.
  The loop variable \<open>name\<close> is written \<open>name'\<close>: \<open>name\<close> is the field above.
\<close>

fun register_items :: "(string \<times> 'v) list \<Rightarrow> 'v dict \<Rightarrow> 'v dict" where
  "register_items [] d = d"
| "register_items ((name', value) # items) d =
     register_items items (if name' \<notin> {''self''} then DAList.update name' value d else d)"

definition register_kwargs :: "('v, 'z) Model_scheme \<Rightarrow> 'v dict \<Rightarrow> ('v, 'z) Model_scheme" where
  "register_kwargs self kw = self\<lparr>kwargs := register_items (DAList.impl_of kw) (kwargs self)\<rparr>"

text \<open>\<open>Model.__init__\<close> (model.py 6-10).\<close>

definition Model_init :: "'v dict \<Rightarrow> 'v Model" where
  "Model_init kw =
     register_kwargs \<lparr>name = ''nunif.Model'', kwargs = DAList.empty, updated_at = None\<rparr> kw"

definition get_kwargs :: "('v, 'z) Model_scheme \<Rightarrow> 'v dict" where
  "get_kwargs self = kwargs self"

text \<open>
  \<open>class I2IBaseModel(Model)\<close> (model.py 31-42): the two geometry attributes on top
  of those of \<open>Model\<close>, and \<open>get_config\<close>, a dict of the two.
\<close>

record 'v I2IBaseModel = "'v Model" +
  i2i_scale :: int
  i2i_offset :: int

definition I2IBaseModel_init :: "'v dict \<Rightarrow> int \<Rightarrow> int \<Rightarrow> 'v I2IBaseModel" where
  "I2IBaseModel_init kw scale offset =
     Model.extend ((Model_init kw)\<lparr>name := ''nunif.i2i_base''\<rparr>)
       (I2IBaseModel.fields scale offset)"

definition Model_get_config :: "('v, 'z) Model_scheme \<Rightarrow> int dict" where
  "Model_get_config self = DAList.empty"

definition get_config :: "'v I2IBaseModel \<Rightarrow> int dict" where
  "get_config self =
     DAList.update ''i2i_offset'' (i2i_offset self)
       (DAList.update ''i2i_scale'' (i2i_scale self) (Model_get_config self))"


section \<open>waifu2x/cli.py\<close>

subsection \<open>Strings and paths of the standard library\<close>

text \<open>
  \<open>str.lower\<close> on the ASCII letters, which is all a comparison with \<open>png\<close>,
  \<open>webp\<close>, \<open>jpeg\<close>, \<open>jpg\<close> can see.
\<close>

definition lower_char :: "char \<Rightarrow> char" where
  "lower_char c =
     (case map_of (zip ''ABCDEFGHIJKLMNOPQRSTUVWXYZ'' ''abcdefghijklmnopqrstuvwxyz'') c of
        Some d \<Rightarrow> d | None \<Rightarrow> c)"

definition lower :: "string \<Rightarrow> string" where
  "lower s = map lower_char s"

text \<open>\<open>str.rfind\<close> for a single character: the last index, or \<open>-1\<close>.\<close>

definition rfind :: "string \<Rightarrow> char \<Rightarrow> int" where
  "rfind p c = (case filter (\<lambda>i. p ! i = c) (rev [0..<length p]) of [] \<Rightarrow> - 1 | i # _ \<Rightarrow> int i)"

text \<open>
  \<open>os.path.splitext\<close>, \<open>os.path.basename\<close> and \<open>os.path.join\<close> (of two parts) as
  \<open>posixpath\<close> defines them.  \<open>splitext\<close> splits at the last dot of the last path
  component unless only dots precede it there; its \<open>while\<close> loop looks for a
  character other than a dot between the separator and that dot.
\<close>

definition splitext :: "string \<Rightarrow> string \<times> string" where
  "splitext p =
     (let sepIndex = rfind p CHR ''/'';
          dotIndex = rfind p CHR ''.''
      in if dotIndex > sepIndex
            \<and> list_ex (\<lambda>filenameIndex. p ! filenameIndex \<noteq> CHR ''.'')
                 [nat (sepIndex + 1)..<nat dotIndex]
         then (take (nat dotIndex) p, drop (nat dotIndex) p)
         else (p, []))"

definition basename :: "string \<Rightarrow> string" where
  "basename p = drop (nat (rfind p CHR ''/'' + 1)) p"

definition path_join :: "string \<Rightarrow> string \<Rightarrow> string" where
  "path_join a b =
     (if take 1 b = ''/'' then b
      else if a = [] \<or> last a = CHR ''/'' then a @ b
      else a @ ''/'' @ b)"

subsection \<open>Arguments and collaborators\<close>

text \<open>
  The parsed command line (cli.py 118-150).  \<open>input\<close> and \<open>output\<close> are keywords
  of Isabelle and \<open>method\<close> is a command, so the three fields carry a prime.
  \<open>depth\<close> has no default: \<open>None\<close> unless \<open>--depth\<close> is given.
\<close>

record args =
  input' :: string
  output' :: string
  method' :: string
  noise_level :: int
  tile_size :: int
  batch_size :: int
  tta :: bool
  disable_amp :: bool
  depth :: "int option"
  format :: string
  grayscale :: bool

text \<open>
  What iterating an \<open>ImageLoader\<close> produces: each step of the iterator either
  yields a decoded image with its metadata or raises.  The class is not part of the
  sources at hand, so the sequence is a parameter of the model.
\<close>

datatype ('im, 'e) loader_item = Yield 'im meta | LoaderRaise 'e

text \<open>
  The collaborators \<open>cli.py\<close> calls, as functions that return a value or raise:
  the loader, \<open>os.makedirs\<close>, the image library \<open>IL\<close> (\<open>load_image\<close>,
  \<open>to_tensor\<close>, \<open>to_image\<close>, \<open>save_image\<close>), \<open>ctx.convert\<close> and
  \<open>ctx.load_model\<close>, \<open>set_image_ext\<close>, \<open>os.path.isdir\<close>,
  \<open>ImageLoader.listdir\<close>, and \<open>csv.reader\<close> over the opened file (the rows it
  parses).  \<open>'im\<close> is the type of images, \<open>'t\<close> of tensors, \<open>'e\<close> of the
  exceptions they raise.
\<close>

record ('im, 't, 'e) env =
  ImageLoader :: "string list \<Rightarrow> nat \<Rightarrow> ('im, 'e) loader_item list"
  makedirs :: "string \<Rightarrow> 'e + unit"
  load_image :: "string \<Rightarrow> 'e + ('im \<times> meta)"
  to_tensor :: "'im \<Rightarrow> 'e + ('t \<times> 't option)"
  convert :: "'t \<Rightarrow> 't option \<Rightarrow> string \<Rightarrow> int \<Rightarrow> int \<Rightarrow> int \<Rightarrow> bool \<Rightarrow> bool
                \<Rightarrow> 'e + ('t \<times> 't option)"
  to_image :: "'t \<Rightarrow> 't option \<Rightarrow> pyval \<Rightarrow> 'e + 'im"
  save_image :: "'im \<Rightarrow> string \<Rightarrow> meta \<Rightarrow> string \<Rightarrow> 'e + unit"
  set_image_ext :: "string \<Rightarrow> string \<Rightarrow> 'e + string"
  load_model :: "string \<Rightarrow> int \<Rightarrow> 'e + unit"
  isdir :: "string \<Rightarrow> bool"
  listdir :: "string \<Rightarrow> string list"
  csv_reader :: "string \<Rightarrow> 'e + string list list"

text \<open>\<open>max_queue_size=128\<close>, the argument of \<open>ImageLoader\<close> at cli.py 35.\<close>

definition max_queue_size :: nat where
  "max_queue_size = 128"

subsection \<open>The metadata statements shared by both conversions\<close>

text \<open>
  cli.py 48-52 and 75-79 are the same three statements:
  \<^verbatim>\<open>if args.depth is not None: meta["depth"] = args.depth\<close>,
  \<^verbatim>\<open>depth = meta["depth"] if "depth" in meta and meta["depth"] is not None else 8\<close>,
  \<^verbatim>\<open>if args.grayscale: meta["grayscale"] = True\<close>.
\<close>

definition set_depth :: "args \<Rightarrow> meta \<Rightarrow> meta" where
  "set_depth args meta = (case depth args of Some d \<Rightarrow> meta(''depth'' \<mapsto> PInt d) | None \<Rightarrow> meta)"

definition get_depth :: "meta \<Rightarrow> pyval" where
  "get_depth meta =
     (if ''depth'' \<in> dom meta \<and> meta ''depth'' \<noteq> Some PNone then the (meta ''depth'') else PInt 8)"

definition set_grayscale :: "args \<Rightarrow> meta \<Rightarrow> meta" where
  "set_grayscale args meta = (if grayscale args then meta(''grayscale'' \<mapsto> PBool True) else meta)"

subsection \<open>\<open>convert_files\<close> (cli.py 34-60)\<close>

text \<open>
  A future of the pool: the arguments \<open>IL.save_image\<close> was submitted with, and its
  outcome once the task has run (\<open>None\<close> while it has not).  The workers may run a
  task at any moment after \<open>submit\<close>; since \<open>save_image\<close> is a function of its
  arguments here, the outcome does not depend on the moment, and the model runs a
  task at the latest one: when \<open>f.result()\<close> waits for it, or when leaving the
  \<open>with\<close> block shuts the pool down, which waits for every task.
\<close>

record ('im, 'e) future =
  fut_image :: 'im
  fut_filename :: string
  fut_meta :: meta
  fut_format :: string
  fut_outcome :: "('e + unit) option"

definition run_future :: "('im, 't, 'e) env \<Rightarrow> ('im, 'e) future \<Rightarrow> ('im, 'e) future" where
  "run_future il f =
     (case fut_outcome f of
        Some r \<Rightarrow> f
      | None \<Rightarrow> f\<lparr>fut_outcome :=
                   Some (save_image il (fut_image f) (fut_filename f) (fut_meta f) (fut_format f))\<rparr>)"

text \<open>
  \<open>meta["filename"]\<close> as an argument of \<open>path.basename\<close>: a missing key raises
  \<open>KeyError\<close>, a value that is not a string \<open>TypeError\<close>.
\<close>

definition get_filename :: "meta \<Rightarrow> 'e error + string" where
  "get_filename meta =
     (case meta ''filename'' of
        None \<Rightarrow> Inl (KeyError ''filename'')
      | Some (PStr s) \<Rightarrow> Inr s
      | Some _ \<Rightarrow> Inl TypeError)"

text \<open>
  The body of the loop (cli.py 42-58) for one item of the loader, up to and
  including \<open>pool.submit\<close>: every call before it runs in the loop's own thread, and
  an exception from one of them leaves the loop.
\<close>

definition convert_item ::
  "('im, 't, 'e) env \<Rightarrow> args \<Rightarrow> bool \<Rightarrow> 'im \<Rightarrow> meta \<Rightarrow> 'e error + ('im, 'e) future" where
  "convert_item il args enable_amp im meta =
     (case to_tensor il im of
        Inl e \<Rightarrow> Inl (External e)
      | Inr (rgb, alpha) \<Rightarrow>
     (case convert il rgb alpha (method' args) (noise_level args) (tile_size args)
             (batch_size args) (tta args) enable_amp of
        Inl e \<Rightarrow> Inl (External e)
      | Inr (rgb', alpha') \<Rightarrow>
     (case get_filename meta of
        Inl e \<Rightarrow> Inl e
      | Inr filename \<Rightarrow>
     (case set_image_ext il (basename filename) (format args) of
        Inl e \<Rightarrow> Inl (External e)
      | Inr output_filename \<Rightarrow>
        let meta1 = set_depth args meta;
            depth' = get_depth meta1;
            meta2 = set_grayscale args meta1
        in (case to_image il rgb' alpha' depth' of
              Inl e \<Rightarrow> Inl (External e)
            | Inr img \<Rightarrow>
                Inr \<lparr>fut_image = img,
                     fut_filename = path_join (output' args) output_filename,
                     fut_meta = meta2,
                     fut_format = format args,
                     fut_outcome = None\<rparr>)))))"

text \<open>
  \<^verbatim>\<open>for im, meta in tqdm(loader, ncols=60)\<close>: the list \<open>futures\<close> grows by one
  future per item; the loop ends with the loader, or with the first exception, of
  the loader or of the body.
\<close>

fun submit_loop ::
  "('im, 't, 'e) env \<Rightarrow> args \<Rightarrow> bool \<Rightarrow> ('im, 'e) loader_item list \<Rightarrow> ('im, 'e) future list
     \<Rightarrow> 'e error option \<times> ('im, 'e) future list" where
  "submit_loop il args enable_amp [] futures = (None, futures)"
| "submit_loop il args enable_amp (LoaderRaise e # rest) futures = (Some (External e), futures)"
| "submit_loop il args enable_amp (Yield im meta # rest) futures =
     (case convert_item il args enable_amp im meta of
        Inl e \<Rightarrow> (Some e, futures)
      | Inr f \<Rightarrow> submit_loop il args enable_amp rest (futures @ [f]))"

text \<open>
  \<^verbatim>\<open>for f in futures: f.result()\<close>: \<open>result\<close> waits for the task and raises its
  exception, which leaves the loop with the futures after it not asked.
\<close>

fun result_loop ::
  "('im, 't, 'e) env \<Rightarrow> ('im, 'e) future list \<Rightarrow> 'e error option \<times> ('im, 'e) future list" where
  "result_loop il [] = (None, [])"
| "result_loop il (f # fs) =
     (let f' = run_future il f in
      case fut_outcome f' of
        Some (Inl e) \<Rightarrow> (Some (External e), f' # fs)
      | _ \<Rightarrow> (case result_loop il fs of (r, fs') \<Rightarrow> (r, f' # fs')))"

text \<open>
  Leaving \<^verbatim>\<open>with ... PoolExecutor(...) as pool\<close>, normally or by an exception,
  calls \<open>pool.shutdown(wait=True)\<close>: every task submitted so far runs to its end.
\<close>

definition shutdown :: "('im, 't, 'e) env \<Rightarrow> ('im, 'e) future list \<Rightarrow> ('im, 'e) future list" where
  "shutdown il futures = map (run_future il) futures"

text \<open>
  What a call of \<open>convert_files\<close> leaves behind: the exception it raised, if any,
  and the futures it submitted, as they are when it returns.
\<close>

record ('im, 'e) files_run =
  raised :: "'e error option"
  all_futures :: "('im, 'e) future list"

definition convert_files ::
  "('im, 't, 'e) env \<Rightarrow> string list \<Rightarrow> args \<Rightarrow> bool \<Rightarrow> ('im, 'e) files_run" where
  "convert_files il files args enable_amp =
     (let loader = ImageLoader il files max_queue_size in
      case makedirs il (output' args) of
        Inl e \<Rightarrow> \<lparr>raised = Some (External e), all_futures = []\<rparr>
      | Inr _ \<Rightarrow>
         (case submit_loop il args enable_amp loader [] of
            (Some e, futures) \<Rightarrow> \<lparr>raised = Some e, all_futures = shutdown il futures\<rparr>
          | (None, futures) \<Rightarrow>
              (case result_loop il futures of
                 (r, futures') \<Rightarrow> \<lparr>raised = r, all_futures = shutdown il futures'\<rparr>)))"

subsection \<open>\<open>convert_file\<close> (cli.py 63-82)\<close>

text \<open>
  The calls \<open>convert_file\<close> makes into its collaborators, in order, and the
  exception it raised, if any.
\<close>

datatype 'im call =
    CallLoad string
  | CallToTensor
  | CallConvert
  | CallToImage
  | CallSave 'im string meta string

record ('im, 'e) file_run =
  file_raised :: "'e error option"
  calls :: "'im call list"

definition convert_file :: "('im, 't, 'e) env \<Rightarrow> args \<Rightarrow> bool \<Rightarrow> ('im, 'e) file_run" where
  "convert_file il args enable_amp =
     (let ext = snd (splitext (output' args));
          fmt = drop 1 (lower ext)
      in if fmt \<notin> {''png'', ''webp'', ''jpeg'', ''jpg''}
         then \<lparr>file_raised = Some (ValueError (''Unable to recognize image extension: '' @ fmt)),
               calls = []\<rparr>
         else
     (case load_image il (input' args) of
        Inl e \<Rightarrow> \<lparr>file_raised = Some (External e), calls = [CallLoad (input' args)]\<rparr>
      | Inr (im, meta) \<Rightarrow>
     (case to_tensor il im of
        Inl e \<Rightarrow> \<lparr>file_raised = Some (External e), calls = [CallLoad (input' args), CallToTensor]\<rparr>
      | Inr (rgb, alpha) \<Rightarrow>
     (case convert il rgb alpha (method' args) (noise_level args) (tile_size args)
             (batch_size args) (tta args) enable_amp of
        Inl e \<Rightarrow> \<lparr>file_raised = Some (External e),
                   calls = [CallLoad (input' args), CallToTensor, CallConvert]\<rparr>
      | Inr (rgb', alpha') \<Rightarrow>
        let meta1 = set_depth args meta;
            depth' = get_depth meta1;
            meta2 = set_grayscale args meta1
        in (case to_image il rgb' alpha' depth' of
              Inl e \<Rightarrow> \<lparr>file_raised = Some (External e),
                         calls = [CallLoad (input' args), CallToTensor, CallConvert, CallToImage]\<rparr>
            | Inr img \<Rightarrow>
                \<lparr>file_raised =
                   (case save_image il img (output' args) meta2 fmt of
                      Inl e \<Rightarrow> Some (External e) | Inr _ \<Rightarrow> None),
                 calls = [CallLoad (input' args), CallToTensor, CallConvert, CallToImage,
                          CallSave img (output' args) meta2 fmt]\<rparr>)))))"

subsection \<open>\<open>load_files\<close> and \<open>main\<close> (cli.py 85-114)\<close>

text \<open>
  \<^verbatim>\<open>for row in reader: files.append(row[0])\<close>; \<open>row[0]\<close> of an empty row (a blank
  line of the file) raises \<open>IndexError\<close>.
\<close>

fun first_columns :: "string list list \<Rightarrow> string list \<Rightarrow> 'e error + string list" where
  "first_columns [] files = Inr files"
| "first_columns (row # rows) files =
     (case row of [] \<Rightarrow> Inl IndexError | c # _ \<Rightarrow> first_columns rows (files @ [c]))"

definition load_files :: "('im, 't, 'e) env \<Rightarrow> string \<Rightarrow> 'e error + string list" where
  "load_files il txt =
     (case csv_reader il txt of
        Inl e \<Rightarrow> Inl (External e)
      | Inr rows \<Rightarrow> first_columns rows [])"

text \<open>
  \<open>main\<close> from \<open>ctx.load_model\<close> on (cli.py 106-114); the choice of the model
  directory before it has no part in what is converted.  The result says which
  conversion ran and what it left behind.
\<close>

datatype ('im, 'e) main_run =
    MainRaised "'e error"
  | FilesRun "('im, 'e) files_run"
  | FileRun "('im, 'e) file_run"

definition main :: "('im, 't, 'e) env \<Rightarrow> args \<Rightarrow> ('im, 'e) main_run" where
  "main il args =
     (case load_model il (method' args) (noise_level args) of
        Inl e \<Rightarrow> MainRaised (External e)
      | Inr _ \<Rightarrow>
          if isdir il (input' args)
          then FilesRun (convert_files il (listdir il (input' args)) args (\<not> disable_amp args))
          else if snd (splitext (input' args)) \<in> {''.txt'', ''.csv''}
          then (case load_files il (input' args) of
                  Inl e \<Rightarrow> MainRaised e
                | Inr files \<Rightarrow> FilesRun (convert_files il files args (\<not> disable_amp args)))
          else FileRun (convert_file il args (\<not> disable_amp args)))"

subsection \<open>Reading a run\<close>

text \<open>
  The exceptions of the futures that failed, in submission order, and the file
  names of those that were written.
\<close>

definition failures :: "('im, 'e) future list \<Rightarrow> 'e list" where
  "failures fs =
     List.map_filter (\<lambda>f. case fut_outcome f of Some (Inl e) \<Rightarrow> Some e | _ \<Rightarrow> None) fs"

definition written :: "('im, 'e) future list \<Rightarrow> string list" where
  "written fs = map fut_filename (filter (\<lambda>f. fut_outcome f = Some (Inr ())) fs)"


section \<open>waifu2x/training/downscaling_test.py\<close>

text \<open>
  A PIL image: its size and its rows of pixels, top row first.
\<close>

record 'p image =
  width :: nat
  height :: nat
  pixels :: "'p list list"

text \<open>
  \<open>TF.pad(im, (left, top, right, bottom))\<close> on a PIL image with the default
  constant padding mode is \<open>ImageOps.expand\<close>: a new image of size
  \<open>(left + w + right, top + h + bottom)\<close> filled with the fill colour, into which
  the image is pasted at \<open>(left, top)\<close>, clipped to the new image.  A negative size
  is refused by \<open>Image.new\<close>.  \<open>top\<close> is a constant of HOL, hence \<open>top'\<close>.
\<close>

definition expand_pixel :: "'p \<Rightarrow> 'p image \<Rightarrow> int \<Rightarrow> int \<Rightarrow> int \<Rightarrow> int \<Rightarrow> 'p" where
  "expand_pixel fill im left top' x y =
     (if left \<le> x \<and> x < left + int (width im) \<and> top' \<le> y \<and> y < top' + int (height im)
      then pixels im ! nat (y - top') ! nat (x - left) else fill)"

definition TF_pad :: "'p \<Rightarrow> 'p image \<Rightarrow> int \<times> int \<times> int \<times> int \<Rightarrow> 'e error + 'p image" where
  "TF_pad fill im padding =
     (case padding of (left, top', right, bottom) \<Rightarrow>
        let w = left + int (width im) + right;
            h = top' + int (height im) + bottom
        in if w < 0 \<or> h < 0 then Inl (ValueError ''Width and height must be >= 0'')
           else Inr \<lparr>width = nat w, height = nat h,
                     pixels = map (\<lambda>y. map (\<lambda>x. expand_pixel fill im left top' (int x) (int y))
                                          [0..<nat w]) [0..<nat h]\<rparr>)"

text \<open>\<open>modcrop\<close> (downscaling_test.py 13-19).\<close>

definition modcrop :: "'p \<Rightarrow> 'p image \<Rightarrow> 'e error + 'p image" where
  "modcrop fill im =
     (let w = int (width im); h = int (height im);
          w_pad = - (w mod 4);
          h_pad = - (h mod 4)
      in if w_pad \<noteq> 0 \<or> h_pad \<noteq> 0 then TF_pad fill im (0, 0, w_pad, h_pad) else Inr im)"


section \<open>Collaborators described by the specification only\<close>

subsection \<open>The checkpoint descriptor\<close>

text \<open>
  Modelled from the spec: the registry of transformation kinds, \<open>construct\<close> and
  \<open>describe\<close> (spec 3 and 4.1) are not in \<open>model.py\<close>, which holds the base
  classes only.  A registered kind is a subclass of \<open>I2IBaseModel\<close> whose
  constructor takes named arguments, hands \<open>locals()\<close> (its arguments and
  \<open>self\<close>) to \<open>I2IBaseModel.__init__\<close> and passes a scale and an offset that it
  computes from its arguments; \<open>accepts\<close> says whether a mapping fits the
  constructor's signature.  \<open>construct\<close> fails with \<open>UnknownTransformKind\<close> for
  an identifier outside the registry and with \<open>InvalidParams\<close> for parameters
  the constructor cannot take (a parameter named \<open>self\<close> among them: the name is
  bound already).  \<open>describe\<close> reads the identifier, the captured arguments and the
  geometry off an instance.
\<close>

record 'v kind =
  accepts :: "(string \<rightharpoonup> 'v) \<Rightarrow> bool"
  kind_scale :: "(string \<rightharpoonup> 'v) \<Rightarrow> int"
  kind_offset :: "(string \<rightharpoonup> 'v) \<Rightarrow> int"

datatype construct_error = UnknownTransformKind | InvalidParams

record 'v descriptor =
  transform_id :: string
  params :: "'v dict"
  scale :: int
  offset :: int

definition construct ::
  "(string \<rightharpoonup> 'v kind) \<Rightarrow> 'v \<Rightarrow> string \<Rightarrow> 'v dict \<Rightarrow> construct_error + 'v I2IBaseModel" where
  "construct registry this tid ps =
     (case registry tid of
        None \<Rightarrow> Inl UnknownTransformKind
      | Some k \<Rightarrow>
          if ''self'' \<in> dom (DAList.lookup ps) \<or> \<not> accepts k (DAList.lookup ps)
          then Inl InvalidParams
          else Inr ((I2IBaseModel_init (DAList.update ''self'' this ps)
                       (kind_scale k (DAList.lookup ps)) (kind_offset k (DAList.lookup ps)))
                    \<lparr>name := tid\<rparr>))"

definition describe :: "'v I2IBaseModel \<Rightarrow> 'v descriptor" where
  "describe x =
     \<lparr>transform_id = name x, params = get_kwargs x, scale = i2i_scale x, offset = i2i_offset x\<rparr>"

subsection \<open>The loader's queue\<close>

text \<open>
  Modelled from the spec: the queue inside \<open>ImageLoader\<close> (spec 4.4 and 5), which
  is not in the sources; \<open>convert_files\<close> only names its capacity.  A single
  producer pushes decoded images, in order, into a queue of capacity \<open>N\<close>, and
  the conversion loop pops them.  A push on a full queue blocks, a pop on an empty
  queue blocks: the step leaves the state as it is, and the thread tries again
  later.  The two threads interleave in any order, a schedule.
\<close>

record 'a pipeline =
  undecoded :: "'a list"
  queue :: "'a list"
  popped :: "'a list"

datatype action = Push | Pop

fun queue_step :: "nat \<Rightarrow> 'a pipeline \<Rightarrow> action \<Rightarrow> 'a pipeline" where
  "queue_step N s Push =
     (case undecoded s of
        [] \<Rightarrow> s
      | x # xs \<Rightarrow> if length (queue s) < N then s\<lparr>undecoded := xs, queue := queue s @ [x]\<rparr> else s)"
| "queue_step N s Pop =
     (case queue s of
        [] \<Rightarrow> s
      | x # q \<Rightarrow> s\<lparr>queue := q, popped := popped s @ [x]\<rparr>)"

definition queue_start :: "'a list \<Rightarrow> 'a pipeline" where
  "queue_start xs = \<lparr>undecoded = xs, queue = [], popped = []\<rparr>"

definition queue_run :: "nat \<Rightarrow> 'a list \<Rightarrow> action list \<Rightarrow> 'a pipeline" where
  "queue_run N xs schedule = foldl (queue_step N) (queue_start xs) schedule"


section \<open>Concrete inputs\<close>

text \<open>
  A small world to run the conversions in: images and tensors are the names of the
  files they come from, every collaborator succeeds, except that \<open>load_image\<close>
  cannot decode the file \<open>3\<close> and \<open>save_image\<close> cannot write the files listed in
  \<open>unwritable\<close>.  The loader is a parameter.
\<close>

definition demo_args :: args where
  "demo_args = \<lparr>input' = ''in.png'', output' = ''out'', method' = ''scale'', noise_level = 0,
      tile_size = 256, batch_size = 4, tta = False, disable_amp = False, depth = None,
      format = ''png'', grayscale = False\<rparr>"

definition demo_meta :: "string \<Rightarrow> meta" where
  "demo_meta f = [''filename'' \<mapsto> PStr f]"

definition demo_il ::
  "(string list \<Rightarrow> (string, string) loader_item list) \<Rightarrow> string list
     \<Rightarrow> (string, string, string) env" where
  "demo_il loader unwritable =
     \<lparr>ImageLoader = (\<lambda>files n. loader files),
      makedirs = (\<lambda>d. Inr ()),
      load_image = (\<lambda>f. if f = ''3'' then Inl ''cannot decode 3'' else Inr (f, demo_meta f)),
      to_tensor = (\<lambda>im. Inr (im, None)),
      convert = (\<lambda>rgb alpha m n t b tta amp. Inr (rgb, alpha)),
      to_image = (\<lambda>rgb alpha d. Inr rgb),
      save_image = (\<lambda>im f m fmt. if f \<in> set unwritable then Inl (''cannot write '' @ f) else Inr ()),
      set_image_ext = (\<lambda>f fmt. Inr (f @ ''.'' @ fmt)),
      load_model = (\<lambda>m n. Inr ()),
      isdir = (\<lambda>p. False),
      listdir = (\<lambda>p. []),
      csv_reader = (\<lambda>p. Inr [ [''1'', ''x''], [''2''], [''4'', ''y'', ''z''] ])\<rparr>"

text \<open>
  Three loaders: one that yields every file, one that leaves the file \<open>3\<close> out and
  goes on, one that raises when it reaches it.
\<close>

definition yield_all :: "string list \<Rightarrow> (string, string) loader_item list" where
  "yield_all files = map (\<lambda>f. Yield f (demo_meta f)) files"

definition skip_3 :: "string list \<Rightarrow> (string, string) loader_item list" where
  "skip_3 files = map (\<lambda>f. Yield f (demo_meta f)) (filter (\<lambda>f. f \<noteq> ''3'') files)"

definition raise_3 :: "string list \<Rightarrow> (string, string) loader_item list" where
  "raise_3 files =
     map (\<lambda>f. if f = ''3'' then LoaderRaise ''cannot decode 3'' else Yield f (demo_meta f)) files"

definition files5 :: "string list" where
  "files5 = [''1'', ''2'', ''3'', ''4'', ''5'']"

text \<open>A 5 by 6 image whose pixel at \<open>(x, y)\<close> is \<open>10 y + x\<close>, and a 4 by 4 one.\<close>

definition im56 :: "nat image" where
  "im56 = \<lparr>width = 5, height = 6, pixels = map (\<lambda>y. map (\<lambda>x. 10 * y + x) [0..<5]) [0..<6]\<rparr>"

definition im44 :: "nat image" where
  "im44 = \<lparr>width = 4, height = 4, pixels = map (\<lambda>y. map (\<lambda>x. 10 * y + x) [0..<4]) [0..<4]\<rparr>"

text \<open>The future that \<open>convert_item\<close> builds for the file \<open>f\<close> in that world.\<close>

definition demo_future :: "string \<Rightarrow> (string, string) future" where
  "demo_future f =
     \<lparr>fut_image = f, fut_filename = ''out/'' @ f @ ''.png'', fut_meta = demo_meta f,
      fut_format = ''png'', fut_outcome = None\<rparr>"

text \<open>
  A registry of one kind, whose constructor takes \<open>in_channels\<close> and whose offset
  depends on it.
\<close>

definition demo_registry :: "string \<rightharpoonup> nat kind" where
  "demo_registry =
     [''demo.upscale'' \<mapsto>
        \<lparr>accepts = (\<lambda>p. p ''in_channels'' \<noteq> None),
         kind_scale = (\<lambda>p. 2),
         kind_offset = (\<lambda>p. case p ''in_channels'' of Some n \<Rightarrow> 4 * int n | None \<Rightarrow> 0)\<rparr>]"

lemmas demo_defs =
  demo_il_def demo_args_def demo_meta_def yield_all_def skip_3_def raise_3_def files5_def

lemmas run_defs =
  convert_files_def convert_item_def get_filename_def basename_def rfind_def path_join_def
  set_depth_def get_depth_def set_grayscale_def run_future_def shutdown_def Let_def
  max_queue_size_def


section \<open>Captured constructor arguments\<close>

lemma lookup_register_items:
  "distinct (map fst xs) \<Longrightarrow>
   DAList.lookup (register_items xs d) = DAList.lookup d ++ (map_of xs |` (- {''self''}))"
proof (induction xs arbitrary: d)
  case Nil
  then show ?case by simp
next
  case (Cons p xs)
  obtain k v where p: "p = (k, v)" by (cases p)
  from Cons.prems p have notin: "map_of xs k = None" and dist: "distinct (map fst xs)"
    by (auto simp: map_of_eq_None_iff)
  show ?case
  proof (rule ext)
    fix n
    show "DAList.lookup (register_items (p # xs) d) n
          = (DAList.lookup d ++ (map_of (p # xs) |` (- {''self''}))) n"
      using notin
      by (auto simp add: p Cons.IH [OF dist] map_add_def restrict_map_def DAList.lookup_update
          split: option.splits)
  qed
qed

lemma lookup_register_kwargs:
  "DAList.lookup (kwargs (register_kwargs self kw))
     = DAList.lookup (kwargs self) ++ (DAList.lookup kw |` (- {''self''}))"
  by (simp add: register_kwargs_def lookup_register_items DAList.lookup.rep_eq [symmetric])

lemma lookup_Model_init:
  "DAList.lookup (kwargs (Model_init kw)) = DAList.lookup kw |` (- {''self''})"
  by (rule ext) (simp add: Model_init_def lookup_register_kwargs map_add_def split: option.splits)

lemma updated_at_register_kwargs:
  "updated_at (register_kwargs self kw) = updated_at self"
  by (simp add: register_kwargs_def)

lemma lookup_foldl_register:
  "DAList.lookup (kwargs (foldl register_kwargs self kws))
     = foldl (++) (DAList.lookup (kwargs self)) (map (\<lambda>kw. DAList.lookup kw |` (- {''self''})) kws)"
  by (induction kws arbitrary: self) (simp_all add: lookup_register_kwargs)

lemma foldl_map_add_restrict:
  "foldl (++) (m |` A) (map (\<lambda>kw. DAList.lookup kw |` A) kws)
     = (foldl (++) m (map DAList.lookup kws)) |` A"
proof (induction kws arbitrary: m)
  case Nil
  then show ?case by simp
next
  case (Cons kw kws)
  have "(m |` A) ++ (DAList.lookup kw |` A) = (m ++ DAList.lookup kw) |` A"
    by (rule ext) (simp add: map_add_def restrict_map_def)
  then show ?case using Cons.IH [of "m ++ DAList.lookup kw"] by simp
qed

text \<open>
  C5.  The mapping returned by \<open>get_kwargs\<close> after construction from \<open>kw\<close> and any
  sequence \<open>kws\<close> of further \<open>register_kwargs\<close> calls holds exactly the entries
  given (a later mapping overriding an earlier one on a shared name, as a dict
  assignment does), restricted to the names other than \<open>self\<close>; \<open>self\<close> is never
  one of its keys.
\<close>

theorem get_kwargs_excludes_self:
  "DAList.lookup (get_kwargs (foldl register_kwargs (Model_init kw) kws))
     = (foldl (++) (DAList.lookup kw) (map DAList.lookup kws)) |` (- {''self''})
   \<and> ''self'' \<notin> dom (DAList.lookup (get_kwargs (foldl register_kwargs (Model_init kw) kws)))"
proof -
  have eq: "DAList.lookup (get_kwargs (foldl register_kwargs (Model_init kw) kws))
     = (foldl (++) (DAList.lookup kw) (map DAList.lookup kws)) |` (- {''self''})"
    by (simp add: get_kwargs_def lookup_foldl_register lookup_Model_init foldl_map_add_restrict)
  show ?thesis
    by (simp add: eq restrict_map_def dom_def)
qed

text \<open>
  C6, as the code has it.  \<open>__init__\<close> assigns \<open>updated_at = None\<close> and
  \<open>register_kwargs\<close> never touches the field: after construction, and after any
  further \<open>register_kwargs\<close> calls, \<open>updated_at\<close> is still \<open>None\<close>.  A timestamp
  can only be stored by code outside the class.
\<close>

theorem updated_at_unset_after_init:
  "updated_at (foldl register_kwargs (Model_init kw) kws) = None"
proof (induction kws rule: rev_induct)
  case Nil
  show ?case by (simp add: Model_init_def updated_at_register_kwargs)
next
  case (snoc k kws)
  then show ?case by (simp add: updated_at_register_kwargs)
qed

text \<open>
  C6, as the claim states it, fails: the model constructed from the empty mapping
  holds no timestamp.
\<close>

theorem updated_at_timestamp_counterexample:
  "\<not> (updated_at (Model_init (DAList.empty :: nat dict)) \<noteq> None)"
  by (simp add: Model_init_def updated_at_register_kwargs)


section \<open>The two loops of \<open>convert_files\<close>\<close>

lemma run_future_done: "\<exists>r. fut_outcome (run_future il f) = Some r"
  by (simp add: run_future_def split: option.splits)

lemma run_future_idem: "run_future il (run_future il f) = run_future il f"
  by (simp add: run_future_def split: option.splits)

lemma run_future_pending:
  "fut_outcome f = None \<Longrightarrow>
   run_future il f
     = f\<lparr>fut_outcome := Some (save_image il (fut_image f) (fut_filename f) (fut_meta f) (fut_format f))\<rparr>"
  by (simp add: run_future_def)

lemma shutdown_done: "f \<in> set (shutdown il fs) \<Longrightarrow> fut_outcome f \<noteq> None"
  using run_future_done by (fastforce simp: shutdown_def)

lemma result_loop_shutdown:
  "shutdown il (snd (result_loop il fs)) = shutdown il fs"
  by (induction fs)
     (auto simp: shutdown_def Let_def run_future_idem split: option.splits sum.splits prod.splits)

lemma failures_Cons:
  "failures (f # fs) = (case fut_outcome f of Some (Inl e) \<Rightarrow> e # failures fs | _ \<Rightarrow> failures fs)"
  by (simp add: failures_def split: option.splits sum.splits)

lemma result_loop_first:
  "fst (result_loop il fs)
     = (case failures (shutdown il fs) of [] \<Rightarrow> None | e # _ \<Rightarrow> Some (External e))"
  by (induction fs)
     (auto simp: shutdown_def Let_def failures_Cons failures_def
           split: option.splits sum.splits prod.splits list.splits)

lemma convert_item_pending: "convert_item il args amp im m = Inr f \<Longrightarrow> fut_outcome f = None"
  by (auto simp: convert_item_def Let_def split: sum.splits prod.splits)

lemma convert_item_meta:
  "convert_item il args amp im m = Inr f \<Longrightarrow> fut_meta f = set_grayscale args (set_depth args m)"
  by (auto simp: convert_item_def Let_def split: sum.splits prod.splits)

lemma submit_loop_origin:
  "submit_loop il args amp items acc = (r, futs) \<Longrightarrow>
   \<exists>new. futs = acc @ new \<and>
     (\<forall>f\<in>set new. \<exists>im m. Yield im m \<in> set items \<and> convert_item il args amp im m = Inr f)"
proof (induction il args amp items acc rule: submit_loop.induct)
  case (1 il args enable_amp futures)
  then show ?case by simp
next
  case (2 il args enable_amp e rest futures)
  then show ?case by simp
next
  case (3 il args enable_amp im meta rest futures)
  show ?case
  proof (cases "convert_item il args enable_amp im meta")
    case (Inl e)
    with 3 show ?thesis by simp
  next
    case (Inr f)
    with 3 obtain new where "futs = (futures @ [f]) @ new"
      and "\<forall>g\<in>set new. \<exists>im m. Yield im m \<in> set rest \<and> convert_item il args enable_amp im m = Inr g"
      by auto
    with Inr show ?thesis
      by (intro exI [of _ "f # new"]) fastforce
  qed
qed

lemma submit_loop_all:
  "map (\<lambda>(im, m). convert_item il args amp im m) items = map Inr fs \<Longrightarrow>
   submit_loop il args amp (map (\<lambda>(im, m). Yield im m) items @ rest) acc
     = submit_loop il args amp rest (acc @ fs)"
proof (induction items arbitrary: fs acc)
  case Nil
  then show ?case by simp
next
  case (Cons it items)
  obtain im m where it: "it = (im, m)" by (cases it)
  from Cons.prems it obtain f fs' where fs: "fs = f # fs'"
    and f: "convert_item il args amp im m = Inr f"
    and rest: "map (\<lambda>(im, m). convert_item il args amp im m) items = map Inr fs'"
    by (cases fs) auto
  show ?case using Cons.IH [OF rest, of "acc @ [f]"] by (simp add: it f fs)
qed

lemma all_futures_convert_files:
  "makedirs il (output' args) = Inr u \<Longrightarrow>
   all_futures (convert_files il files args amp)
     = shutdown il (snd (submit_loop il args amp (ImageLoader il files max_queue_size) []))"
proof -
  assume mk: "makedirs il (output' args) = Inr u"
  obtain r fs where sl: "submit_loop il args amp (ImageLoader il files max_queue_size) [] = (r, fs)"
    by (cases "submit_loop il args amp (ImageLoader il files max_queue_size) []")
  obtain r' fs' where rl: "result_loop il fs = (r', fs')"
    by (cases "result_loop il fs")
  have "shutdown il fs' = shutdown il fs"
    using result_loop_shutdown [of il fs] by (simp add: rl)
  then show ?thesis
    by (cases r) (simp_all add: convert_files_def Let_def mk sl rl)
qed

lemma raised_convert_files:
  "makedirs il (output' args) = Inr u \<Longrightarrow>
   submit_loop il args amp (ImageLoader il files max_queue_size) [] = (None, fs) \<Longrightarrow>
   raised (convert_files il files args amp)
     = (case failures (shutdown il fs) of [] \<Rightarrow> None | e # _ \<Rightarrow> Some (External e))"
  using result_loop_first [of il fs]
  by (cases "result_loop il fs") (simp add: convert_files_def Let_def)

lemma raised_convert_files_loop:
  "makedirs il (output' args) = Inr u \<Longrightarrow>
   submit_loop il args amp (ImageLoader il files max_queue_size) [] = (Some e, fs) \<Longrightarrow>
   raised (convert_files il files args amp) = Some e"
  by (simp add: convert_files_def Let_def)

lemma all_futures_done:
  "f \<in> set (all_futures (convert_files il files args amp)) \<Longrightarrow> fut_outcome f \<noteq> None"
proof (cases "makedirs il (output' args)")
  case (Inl e)
  assume "f \<in> set (all_futures (convert_files il files args amp))"
  with Inl show ?thesis by (simp add: convert_files_def Let_def)
next
  case (Inr u)
  assume "f \<in> set (all_futures (convert_files il files args amp))"
  then show ?thesis
    unfolding all_futures_convert_files [OF Inr] by (rule shutdown_done)
qed

text \<open>
  C1, as the code has it.  \<open>convert_files\<close> returns or raises only when every
  future it submitted has completed: the futures it leaves behind are those of the
  submission loop, each with an outcome.  When the submission loop ends without an
  exception, the exception \<open>convert_files\<close> raises is that of the first failed
  future in submission order, and it returns normally when none failed.  The
  exceptions of later futures are not part of what it raises.
\<close>

theorem convert_files_joins_every_future:
  "(\<forall>f \<in> set (all_futures (convert_files il files args amp)). fut_outcome f \<noteq> None)
   \<and> (makedirs il (output' args) = Inr () \<longrightarrow>
        all_futures (convert_files il files args amp)
          = shutdown il (snd (submit_loop il args amp (ImageLoader il files max_queue_size) [])))
   \<and> (makedirs il (output' args) = Inr ()
        \<and> fst (submit_loop il args amp (ImageLoader il files max_queue_size) []) = None \<longrightarrow>
        raised (convert_files il files args amp)
          = (case failures (all_futures (convert_files il files args amp)) of
               [] \<Rightarrow> None | e # _ \<Rightarrow> Some (External e)))"
proof (intro conjI ballI impI)
  fix f assume "f \<in> set (all_futures (convert_files il files args amp))"
  then show "fut_outcome f \<noteq> None" by (rule all_futures_done)
next
  assume "makedirs il (output' args) = Inr ()"
  then show "all_futures (convert_files il files args amp)
          = shutdown il (snd (submit_loop il args amp (ImageLoader il files max_queue_size) []))"
    by (rule all_futures_convert_files)
next
  assume a: "makedirs il (output' args) = Inr ()
        \<and> fst (submit_loop il args amp (ImageLoader il files max_queue_size) []) = None"
  then obtain fs where fs: "submit_loop il args amp (ImageLoader il files max_queue_size) [] = (None, fs)"
    by (cases "submit_loop il args amp (ImageLoader il files max_queue_size) []") auto
  from a have mk: "makedirs il (output' args) = Inr ()" by simp
  show "raised (convert_files il files args amp)
          = (case failures (all_futures (convert_files il files args amp)) of
               [] \<Rightarrow> None | e # _ \<Rightarrow> Some (External e))"
    using raised_convert_files [OF mk fs] all_futures_convert_files [OF mk, of files amp]
    by (simp add: fs)
qed

text \<open>
  A run of five files of which the writes of the third and the fifth fail: both
  futures have completed with their exceptions, and the third's is raised.
\<close>

theorem convert_files_joins_every_future_witness:
  "map fut_outcome (all_futures (convert_files (demo_il yield_all [''out/3.png'', ''out/5.png'']) files5 demo_args True))
     = [Some (Inr ()), Some (Inr ()), Some (Inl ''cannot write out/3.png''), Some (Inr ()),
        Some (Inl ''cannot write out/5.png'')]
   \<and> makedirs (demo_il yield_all [''out/3.png'', ''out/5.png'']) (output' demo_args) = Inr ()
   \<and> fst (submit_loop (demo_il yield_all [''out/3.png'', ''out/5.png'']) demo_args True
        (ImageLoader (demo_il yield_all [''out/3.png'', ''out/5.png'']) files5 max_queue_size) []) = None
   \<and> raised (convert_files (demo_il yield_all [''out/3.png'', ''out/5.png'']) files5 demo_args True)
       = Some (External ''cannot write out/3.png'')"
  using convert_files_joins_every_future
    [of "demo_il yield_all [''out/3.png'', ''out/5.png'']" files5 demo_args True]
  by (simp add: demo_defs run_defs failures_def)

text \<open>
  C1, as the claim states it, fails.  Two runs that differ only in whether the write
  of the fifth file fails, after the write of the third has failed, raise the same
  exception: the later failure is in the futures and in nothing \<open>convert_files\<close>
  reports.
\<close>

theorem later_errors_dropped_counterexample:
  "failures (all_futures (convert_files (demo_il yield_all [''out/3.png'', ''out/5.png'']) files5 demo_args True))
     = [''cannot write out/3.png'', ''cannot write out/5.png'']
   \<and> failures (all_futures (convert_files (demo_il yield_all [''out/3.png'']) files5 demo_args True))
     = [''cannot write out/3.png'']
   \<and> raised (convert_files (demo_il yield_all [''out/3.png'', ''out/5.png'']) files5 demo_args True)
     = Some (External ''cannot write out/3.png'')
   \<and> raised (convert_files (demo_il yield_all [''out/3.png'']) files5 demo_args True)
     = Some (External ''cannot write out/3.png'')"
  by (simp add: demo_defs run_defs failures_def)


section \<open>Output extension\<close>

lemma convert_file_unrecognized:
  "drop 1 (lower (snd (splitext (output' args)))) \<notin> {''png'', ''webp'', ''jpeg'', ''jpg''} \<Longrightarrow>
   convert_file il args amp
     = \<lparr>file_raised = Some (ValueError (''Unable to recognize image extension: ''
                                 @ drop 1 (lower (snd (splitext (output' args)))))),
        calls = []\<rparr>"
  by (simp add: convert_file_def Let_def)

lemma convert_file_recognized:
  "drop 1 (lower (snd (splitext (output' args)))) \<in> {''png'', ''webp'', ''jpeg'', ''jpg''} \<Longrightarrow>
   file_raised (convert_file il args amp) \<noteq> Some (ValueError msg)
   \<and> calls (convert_file il args amp) \<noteq> []"
  by (simp add: convert_file_def Let_def split: sum.splits prod.splits)

text \<open>
  C7.  \<open>convert_file\<close> raises a \<open>ValueError\<close> exactly when the lowercased
  extension of the output path, without its dot, is none of \<open>png\<close>, \<open>webp\<close>,
  \<open>jpeg\<close>, \<open>jpg\<close>; the exception then carries that extension, and no call has
  been made: nothing was loaded, converted or written.  (Every other exception of
  \<open>convert_file\<close> comes out of a collaborator, after the check.)
\<close>

theorem convert_file_extension_check:
  "((\<exists>msg. file_raised (convert_file il args amp) = Some (ValueError msg))
      = (drop 1 (lower (snd (splitext (output' args)))) \<notin> {''png'', ''webp'', ''jpeg'', ''jpg''}))
   \<and> (drop 1 (lower (snd (splitext (output' args)))) \<notin> {''png'', ''webp'', ''jpeg'', ''jpg''} \<longrightarrow>
        file_raised (convert_file il args amp)
          = Some (ValueError (''Unable to recognize image extension: ''
                               @ drop 1 (lower (snd (splitext (output' args))))))
        \<and> calls (convert_file il args amp) = [])"
proof (cases "drop 1 (lower (snd (splitext (output' args)))) \<in> {''png'', ''webp'', ''jpeg'', ''jpg''}")
  case True
  with convert_file_recognized [OF True, of il amp] show ?thesis by blast
next
  case False
  with convert_file_unrecognized [OF False, of il amp] show ?thesis by simp
qed

text \<open>
  The output \<open>out/a.b/pic.BMP\<close> is refused before anything is loaded; the output
  \<open>out/pic.JPG\<close> passes the check and the input is loaded.
\<close>

theorem convert_file_extension_check_witness:
  "drop 1 (lower (snd (splitext ''out/a.b/pic.BMP''))) \<notin> {''png'', ''webp'', ''jpeg'', ''jpg''}
   \<and> file_raised (convert_file (demo_il yield_all []) (demo_args\<lparr>output' := ''out/a.b/pic.BMP''\<rparr>) True)
       = Some (ValueError ''Unable to recognize image extension: bmp'')
   \<and> calls (convert_file (demo_il yield_all []) (demo_args\<lparr>output' := ''out/a.b/pic.BMP''\<rparr>) True) = []
   \<and> drop 1 (lower (snd (splitext ''out/pic.JPG''))) = ''jpg''
   \<and> file_raised (convert_file (demo_il yield_all []) (demo_args\<lparr>output' := ''out/pic.JPG''\<rparr>) True)
       = None"
  using convert_file_extension_check
    [of "demo_il yield_all []" "demo_args\<lparr>output' := ''out/a.b/pic.BMP''\<rparr>" True]
  by (simp add: convert_file_def splitext_def rfind_def lower_def lower_char_def Let_def upt_rec
      demo_defs set_depth_def get_depth_def set_grayscale_def)

section \<open>Metadata between load and save\<close>

lemma saved_meta_apply:
  "set_grayscale args (set_depth args meta) k
     = (if k = ''grayscale'' \<and> grayscale args then Some (PBool True)
        else if k = ''depth'' \<and> depth args \<noteq> None then Some (PInt (the (depth args)))
        else meta k)"
  by (auto simp: set_grayscale_def set_depth_def split: option.splits)

lemma convert_file_saved_meta:
  "CallSave img fn m fmt \<in> set (calls (convert_file il args amp)) \<Longrightarrow>
   \<exists>im meta. load_image il (input' args) = Inr (im, meta)
     \<and> m = set_grayscale args (set_depth args meta)"
  by (auto simp: convert_file_def Let_def split: if_splits sum.splits prod.splits)

lemma run_future_fields:
  "fut_image (run_future il g) = fut_image g \<and> fut_filename (run_future il g) = fut_filename g
   \<and> fut_meta (run_future il g) = fut_meta g \<and> fut_format (run_future il g) = fut_format g"
  by (simp add: run_future_def split: option.splits)

lemma convert_files_saved_meta:
  assumes "f \<in> set (all_futures (convert_files il files args amp))"
  shows "\<exists>im meta g. Yield im meta \<in> set (ImageLoader il files max_queue_size)
           \<and> convert_item il args amp im meta = Inr g
           \<and> f = run_future il g
           \<and> fut_outcome f
               = Some (save_image il (fut_image f) (fut_filename f) (fut_meta f) (fut_format f))
           \<and> fut_meta f = set_grayscale args (set_depth args meta)"
proof (cases "makedirs il (output' args)")
  case (Inl e)
  with assms show ?thesis by (simp add: convert_files_def Let_def)
next
  case (Inr u)
  obtain r fs where sl: "submit_loop il args amp (ImageLoader il files max_queue_size) [] = (r, fs)"
    by (cases "submit_loop il args amp (ImageLoader il files max_queue_size) []")
  from assms obtain g where g: "g \<in> set fs" and f: "f = run_future il g"
    by (auto simp: all_futures_convert_files [OF Inr] sl shutdown_def)
  from submit_loop_origin [OF sl] g obtain im meta
    where y: "Yield im meta \<in> set (ImageLoader il files max_queue_size)"
      and c: "convert_item il args amp im meta = Inr g"
    by auto
  have m: "fut_meta f = set_grayscale args (set_depth args meta)"
    using convert_item_meta [OF c] by (simp add: f run_future_fields)
  have o: "fut_outcome f
             = Some (save_image il (fut_image f) (fut_filename f) (fut_meta f) (fut_format f))"
    using convert_item_pending [OF c] by (simp add: f run_future_pending)
  from y c f o m show ?thesis by blast
qed

text \<open>
  C3, as the code has it.  The metadata that \<open>convert_file\<close> passes to
  \<open>save_image\<close> is the metadata \<open>load_image\<close> returned for the input, with two
  possible changes: \<open>depth\<close> is set to \<open>args.depth\<close> when that is given, and
  \<open>grayscale\<close> is set to \<open>True\<close> when \<open>args.grayscale\<close> is set.  Every other key
  is as loaded, and without the two options the metadata is the loaded one.  In
  \<open>convert_files\<close> the same holds job by job: every future it leaves behind is the
  one the loop body built from an item \<open>(im, meta)\<close> of the loader (its image
  and its file name come from that item), its \<open>save_image\<close> ran with the
  metadata the future carries, and that metadata is the item's \<open>meta\<close> with the
  same two possible changes.
\<close>

theorem metadata_carried_except_depth_grayscale:
  "(CallSave img fn m fmt \<in> set (calls (convert_file il args amp)) \<longrightarrow>
      (\<exists>im meta. load_image il (input' args) = Inr (im, meta)
         \<and> (\<forall>k. m k = (if k = ''grayscale'' \<and> grayscale args then Some (PBool True)
                        else if k = ''depth'' \<and> depth args \<noteq> None then Some (PInt (the (depth args)))
                        else meta k))
         \<and> (depth args = None \<and> \<not> grayscale args \<longrightarrow> m = meta)))
   \<and> (f \<in> set (all_futures (convert_files il files args amp)) \<longrightarrow>
      (\<exists>im meta g. Yield im meta \<in> set (ImageLoader il files max_queue_size)
         \<and> convert_item il args amp im meta = Inr g
         \<and> f = run_future il g
         \<and> fut_outcome f
             = Some (save_image il (fut_image f) (fut_filename f) (fut_meta f) (fut_format f))
         \<and> (\<forall>k. fut_meta f k = (if k = ''grayscale'' \<and> grayscale args then Some (PBool True)
                        else if k = ''depth'' \<and> depth args \<noteq> None then Some (PInt (the (depth args)))
                        else meta k))
         \<and> (depth args = None \<and> \<not> grayscale args \<longrightarrow> fut_meta f = meta)))"
proof (intro conjI impI)
  assume "CallSave img fn m fmt \<in> set (calls (convert_file il args amp))"
  from convert_file_saved_meta [OF this]
  obtain im meta where l: "load_image il (input' args) = Inr (im, meta)"
    and m: "m = set_grayscale args (set_depth args meta)"
    by auto
  have "depth args = None \<and> \<not> grayscale args \<longrightarrow> m = meta"
    by (simp add: m set_grayscale_def set_depth_def)
  with l m show "\<exists>im meta. load_image il (input' args) = Inr (im, meta)
         \<and> (\<forall>k. m k = (if k = ''grayscale'' \<and> grayscale args then Some (PBool True)
                        else if k = ''depth'' \<and> depth args \<noteq> None then Some (PInt (the (depth args)))
                        else meta k))
         \<and> (depth args = None \<and> \<not> grayscale args \<longrightarrow> m = meta)"
    using saved_meta_apply [of args meta] by (intro exI [of _ im] exI [of _ meta]) simp
next
  assume "f \<in> set (all_futures (convert_files il files args amp))"
  from convert_files_saved_meta [OF this]
  obtain im meta g where y: "Yield im meta \<in> set (ImageLoader il files max_queue_size)"
    and c: "convert_item il args amp im meta = Inr g"
    and f: "f = run_future il g"
    and o: "fut_outcome f
              = Some (save_image il (fut_image f) (fut_filename f) (fut_meta f) (fut_format f))"
    and m: "fut_meta f = set_grayscale args (set_depth args meta)"
    by blast
  have k: "\<forall>k. fut_meta f k = (if k = ''grayscale'' \<and> grayscale args then Some (PBool True)
                        else if k = ''depth'' \<and> depth args \<noteq> None then Some (PInt (the (depth args)))
                        else meta k)"
    using saved_meta_apply [of args meta] by (simp add: m)
  have n: "depth args = None \<and> \<not> grayscale args \<longrightarrow> fut_meta f = meta"
    by (simp add: m set_grayscale_def set_depth_def)
  from y c f o k n
  show "\<exists>im meta g. Yield im meta \<in> set (ImageLoader il files max_queue_size)
         \<and> convert_item il args amp im meta = Inr g
         \<and> f = run_future il g
         \<and> fut_outcome f
             = Some (save_image il (fut_image f) (fut_filename f) (fut_meta f) (fut_format f))
         \<and> (\<forall>k. fut_meta f k = (if k = ''grayscale'' \<and> grayscale args then Some (PBool True)
                        else if k = ''depth'' \<and> depth args \<noteq> None then Some (PInt (the (depth args)))
                        else meta k))
         \<and> (depth args = None \<and> \<not> grayscale args \<longrightarrow> fut_meta f = meta)"
    by (intro exI [of _ im] exI [of _ meta] exI [of _ g]) simp
qed

text \<open>
  With \<open>--depth 16 --grayscale\<close>: the file \<open>in.png\<close> is loaded with the single
  key \<open>filename\<close> and saved with \<open>depth\<close> and \<open>grayscale\<close> beside it.  In a
  batch of five files every future carries the file name of its own item with the
  two keys beside it; the third future is the one built from the item of file
  \<open>3\<close>.
\<close>

theorem metadata_carried_except_depth_grayscale_witness:
  "CallSave ''in.png'' ''out.png''
       [''filename'' \<mapsto> PStr ''in.png'', ''depth'' \<mapsto> PInt 16, ''grayscale'' \<mapsto> PBool True] ''png''
     \<in> set (calls (convert_file (demo_il yield_all [])
                 (demo_args\<lparr>output' := ''out.png'', depth := Some 16, grayscale := True\<rparr>) True))
   \<and> load_image (demo_il yield_all []) ''in.png'' = Inr (''in.png'', [''filename'' \<mapsto> PStr ''in.png''])
   \<and> all_futures (convert_files (demo_il yield_all []) files5
          (demo_args\<lparr>depth := Some 16, grayscale := True\<rparr>) True) ! 2
     \<in> set (all_futures (convert_files (demo_il yield_all []) files5
          (demo_args\<lparr>depth := Some 16, grayscale := True\<rparr>) True))
   \<and> Yield ''3'' [''filename'' \<mapsto> PStr ''3'']
     \<in> set (ImageLoader (demo_il yield_all []) files5 max_queue_size)
   \<and> convert_item (demo_il yield_all []) (demo_args\<lparr>depth := Some 16, grayscale := True\<rparr>) True
         ''3'' [''filename'' \<mapsto> PStr ''3'']
       = Inr ((demo_future ''3'')
               \<lparr>fut_meta := [''filename'' \<mapsto> PStr ''3'', ''depth'' \<mapsto> PInt 16,
                              ''grayscale'' \<mapsto> PBool True]\<rparr>)
   \<and> all_futures (convert_files (demo_il yield_all []) files5
          (demo_args\<lparr>depth := Some 16, grayscale := True\<rparr>) True) ! 2
       = run_future (demo_il yield_all [])
           ((demo_future ''3'')
               \<lparr>fut_meta := [''filename'' \<mapsto> PStr ''3'', ''depth'' \<mapsto> PInt 16,
                              ''grayscale'' \<mapsto> PBool True]\<rparr>)
   \<and> map (\<lambda>f. (fut_image f, fut_filename f, fut_meta f ''filename'', fut_meta f ''depth'',
                 fut_meta f ''grayscale''))
         (all_futures (convert_files (demo_il yield_all []) files5
            (demo_args\<lparr>depth := Some 16, grayscale := True\<rparr>) True))
       = map (\<lambda>n. (n, ''out/'' @ n @ ''.png'', Some (PStr n), Some (PInt 16), Some (PBool True)))
           files5"
  using metadata_carried_except_depth_grayscale
    [of "''in.png''" "''out.png''"
        "[''filename'' \<mapsto> PStr ''in.png'', ''depth'' \<mapsto> PInt 16, ''grayscale'' \<mapsto> PBool True]"
        "''png''" "demo_il yield_all []"
        "demo_args\<lparr>output' := ''out.png'', depth := Some 16, grayscale := True\<rparr>" True]
    metadata_carried_except_depth_grayscale
    [where il = "demo_il yield_all []" and files = files5
       and args = "demo_args\<lparr>depth := Some 16, grayscale := True\<rparr>" and amp = True
       and f = "all_futures (convert_files (demo_il yield_all []) files5
                  (demo_args\<lparr>depth := Some 16, grayscale := True\<rparr>) True) ! 2"]
  by (simp add: convert_file_def splitext_def rfind_def lower_def lower_char_def upt_rec
      demo_future_def demo_defs run_defs)

text \<open>
  C3, as the claim states it, fails: with \<open>--depth 16\<close> the metadata loaded for
  \<open>in.png\<close> has no key \<open>depth\<close>, and the metadata saved has one.
\<close>

theorem metadata_unmodified_counterexample:
  "load_image (demo_il yield_all []) (input' (demo_args\<lparr>output' := ''out.png'', depth := Some 16\<rparr>))
     = Inr (''in.png'', [''filename'' \<mapsto> PStr ''in.png''])
   \<and> last (calls (convert_file (demo_il yield_all [])
                    (demo_args\<lparr>output' := ''out.png'', depth := Some 16\<rparr>) True))
     = CallSave ''in.png'' ''out.png'' [''filename'' \<mapsto> PStr ''in.png'', ''depth'' \<mapsto> PInt 16] ''png''
   \<and> [''filename'' \<mapsto> PStr ''in.png'', ''depth'' \<mapsto> PInt 16] ''depth''
     \<noteq> [''filename'' \<mapsto> PStr ''in.png''] ''depth''"
  by (simp add: convert_file_def splitext_def rfind_def lower_def lower_char_def upt_rec demo_defs run_defs)


section \<open>One file's failure and the other files\<close>

lemma submitted_pending:
  "map (\<lambda>(im, m). convert_item il args amp im m) items = map Inr fs \<Longrightarrow>
   f \<in> set fs \<Longrightarrow> fut_outcome f = None"
proof -
  assume eq: "map (\<lambda>(im, m). convert_item il args amp im m) items = map Inr fs" and f: "f \<in> set fs"
  then have "Inr f \<in> set (map (\<lambda>(im, m). convert_item il args amp im m) items)"
    by simp
  then obtain im m where "convert_item il args amp im m = Inr f"
    by auto
  then show ?thesis by (rule convert_item_pending)
qed

lemma written_shutdown:
  "(\<And>f. f \<in> set fs \<Longrightarrow> fut_outcome f = None) \<Longrightarrow>
   written (shutdown il fs)
     = map fut_filename
         (filter (\<lambda>f. save_image il (fut_image f) (fut_filename f) (fut_meta f) (fut_format f) = Inr ()) fs)"
  by (induction fs) (simp_all add: written_def shutdown_def run_future_pending)

lemma convert_files_all_yielded:
  assumes mk: "makedirs il (output' args) = Inr ()"
    and ld: "ImageLoader il files max_queue_size = map (\<lambda>(im, m). Yield im m) items"
    and cv: "map (\<lambda>(im, m). convert_item il args amp im m) items = map Inr fs"
  shows "all_futures (convert_files il files args amp) = shutdown il fs"
    and "raised (convert_files il files args amp)
           = (case failures (shutdown il fs) of [] \<Rightarrow> None | e # _ \<Rightarrow> Some (External e))"
proof -
  have sl: "submit_loop il args amp (ImageLoader il files max_queue_size) [] = (None, fs)"
    using submit_loop_all [OF cv, of "[]" "[]"] by (simp add: ld)
  show "all_futures (convert_files il files args amp) = shutdown il fs"
    by (simp add: all_futures_convert_files [OF mk] sl)
  show "raised (convert_files il files args amp)
           = (case failures (shutdown il fs) of [] \<Rightarrow> None | e # _ \<Rightarrow> Some (External e))"
    by (rule raised_convert_files [OF mk sl])
qed

lemma convert_files_loader_raises:
  assumes mk: "makedirs il (output' args) = Inr ()"
    and ld: "ImageLoader il files max_queue_size = map (\<lambda>(im, m). Yield im m) items @ LoaderRaise e # rest"
    and cv: "map (\<lambda>(im, m). convert_item il args amp im m) items = map Inr fs"
  shows "all_futures (convert_files il files args amp) = shutdown il fs"
    and "raised (convert_files il files args amp) = Some (External e)"
proof -
  have sl: "submit_loop il args amp (ImageLoader il files max_queue_size) [] = (Some (External e), fs)"
    using submit_loop_all [OF cv, of "LoaderRaise e # rest" "[]"] by (simp add: ld)
  show "all_futures (convert_files il files args amp) = shutdown il fs"
    by (simp add: all_futures_convert_files [OF mk] sl)
  show "raised (convert_files il files args amp) = Some (External e)"
    by (rule raised_convert_files_loop [OF mk sl])
qed

text \<open>
  C2, as the code has it.  In a batch, the failure of one file's write does not
  stop the others: when the loader yields \<open>items\<close> and the conversion of each
  succeeds, every one of them is submitted and run, the files written are those
  whose \<open>save_image\<close> succeeds, and \<open>convert_files\<close> then raises the exception of
  the first failed write (none if all succeed).  A file that cannot be decoded is
  the loader's matter: \<open>convert_files\<close> works on the items the loader yields, and
  when the loader raises, the items before that point are written, the exception
  is raised and nothing after it is processed.  \<open>convert_file\<close> raises the
  exception of \<open>load_image\<close>, and of \<open>save_image\<close>, as it is.
\<close>

theorem batch_write_failure_isolated:
  "(makedirs il (output' args) = Inr ()
      \<and> ImageLoader il files max_queue_size = map (\<lambda>(im, m). Yield im m) items
      \<and> map (\<lambda>(im, m). convert_item il args amp im m) items = map Inr fs \<longrightarrow>
        all_futures (convert_files il files args amp) = shutdown il fs
      \<and> written (all_futures (convert_files il files args amp))
          = map fut_filename
              (filter (\<lambda>f. save_image il (fut_image f) (fut_filename f) (fut_meta f) (fut_format f)
                            = Inr ()) fs)
      \<and> raised (convert_files il files args amp)
          = (case failures (shutdown il fs) of [] \<Rightarrow> None | e # _ \<Rightarrow> Some (External e)))
   \<and> (makedirs il' (output' args') = Inr ()
      \<and> ImageLoader il' files' max_queue_size
          = map (\<lambda>(im, m). Yield im m) items' @ LoaderRaise e' # rest
      \<and> map (\<lambda>(im, m). convert_item il' args' amp' im m) items' = map Inr fs' \<longrightarrow>
        all_futures (convert_files il' files' args' amp') = shutdown il' fs'
      \<and> raised (convert_files il' files' args' amp') = Some (External e'))
   \<and> (drop 1 (lower (snd (splitext (output' args'')))) \<in> {''png'', ''webp'', ''jpeg'', ''jpg''}
      \<and> load_image il'' (input' args'') = Inl e'' \<longrightarrow>
        file_raised (convert_file il'' args'' amp'') = Some (External e''))
   \<and> (CallSave img fn m fmt \<in> set (calls (convert_file il'' args'' amp''))
      \<and> save_image il'' img fn m fmt = Inl e'' \<longrightarrow>
        file_raised (convert_file il'' args'' amp'') = Some (External e''))"
proof (intro conjI impI)
  assume a: "makedirs il (output' args) = Inr ()
      \<and> ImageLoader il files max_queue_size = map (\<lambda>(im, m). Yield im m) items
      \<and> map (\<lambda>(im, m). convert_item il args amp im m) items = map Inr fs"
  then have mk: "makedirs il (output' args) = Inr ()"
    and ld: "ImageLoader il files max_queue_size = map (\<lambda>(im, m). Yield im m) items"
    and cv: "map (\<lambda>(im, m). convert_item il args amp im m) items = map Inr fs"
    by simp_all
  show all: "all_futures (convert_files il files args amp) = shutdown il fs"
    by (rule convert_files_all_yielded [OF mk ld cv])
  show "written (all_futures (convert_files il files args amp))
          = map fut_filename
              (filter (\<lambda>f. save_image il (fut_image f) (fut_filename f) (fut_meta f) (fut_format f)
                            = Inr ()) fs)"
    unfolding all by (rule written_shutdown) (rule submitted_pending [OF cv])
  show "raised (convert_files il files args amp)
          = (case failures (shutdown il fs) of [] \<Rightarrow> None | e # _ \<Rightarrow> Some (External e))"
    by (rule convert_files_all_yielded [OF mk ld cv])
next
  assume a: "makedirs il' (output' args') = Inr ()
      \<and> ImageLoader il' files' max_queue_size
          = map (\<lambda>(im, m). Yield im m) items' @ LoaderRaise e' # rest
      \<and> map (\<lambda>(im, m). convert_item il' args' amp' im m) items' = map Inr fs'"
  then have mk: "makedirs il' (output' args') = Inr ()"
    and ld: "ImageLoader il' files' max_queue_size
          = map (\<lambda>(im, m). Yield im m) items' @ LoaderRaise e' # rest"
    and cv: "map (\<lambda>(im, m). convert_item il' args' amp' im m) items' = map Inr fs'"
    by simp_all
  show "all_futures (convert_files il' files' args' amp') = shutdown il' fs'"
    by (rule convert_files_loader_raises [OF mk ld cv])
  show "raised (convert_files il' files' args' amp') = Some (External e')"
    by (rule convert_files_loader_raises [OF mk ld cv])
next
  assume "drop 1 (lower (snd (splitext (output' args'')))) \<in> {''png'', ''webp'', ''jpeg'', ''jpg''}
      \<and> load_image il'' (input' args'') = Inl e''"
  then show "file_raised (convert_file il'' args'' amp'') = Some (External e'')"
    by (simp add: convert_file_def Let_def)
next
  assume "CallSave img fn m fmt \<in> set (calls (convert_file il'' args'' amp''))
      \<and> save_image il'' img fn m fmt = Inl e''"
  then show "file_raised (convert_file il'' args'' amp'') = Some (External e'')"
    by (auto simp: convert_file_def Let_def split: if_splits sum.splits prod.splits)
qed


text \<open>
  Five files.  When only the write of the third fails, the other four are written
  and the third's exception is raised.  When the loader raises at the third, the
  first two are written and the loader's exception is raised.  A single file that
  cannot be decoded, or cannot be written, raises that exception.
\<close>

theorem batch_write_failure_isolated_witness:
  "makedirs (demo_il yield_all [''out/3.png'']) (output' demo_args) = Inr ()
   \<and> ImageLoader (demo_il yield_all [''out/3.png'']) files5 max_queue_size
       = map (\<lambda>(im, m). Yield im m) (map (\<lambda>f. (f, demo_meta f)) files5)
   \<and> map (\<lambda>(im, m). convert_item (demo_il yield_all [''out/3.png'']) demo_args True im m)
         (map (\<lambda>f. (f, demo_meta f)) files5)
       = map Inr (map demo_future files5)
   \<and> written (all_futures (convert_files (demo_il yield_all [''out/3.png'']) files5 demo_args True))
       = [''out/1.png'', ''out/2.png'', ''out/4.png'', ''out/5.png'']
   \<and> raised (convert_files (demo_il yield_all [''out/3.png'']) files5 demo_args True)
       = Some (External ''cannot write out/3.png'')
   \<and> ImageLoader (demo_il raise_3 []) files5 max_queue_size
       = map (\<lambda>(im, m). Yield im m) (map (\<lambda>f. (f, demo_meta f)) [''1'', ''2''])
         @ LoaderRaise ''cannot decode 3'' # map (\<lambda>f. Yield f (demo_meta f)) [''4'', ''5'']
   \<and> all_futures (convert_files (demo_il raise_3 []) files5 demo_args True)
       = shutdown (demo_il raise_3 []) (map demo_future [''1'', ''2''])
   \<and> raised (convert_files (demo_il raise_3 []) files5 demo_args True)
       = Some (External ''cannot decode 3'')
   \<and> load_image (demo_il yield_all [''out.png'']) (input' (demo_args\<lparr>input' := ''3'', output' := ''out.png''\<rparr>))
       = Inl ''cannot decode 3''
   \<and> file_raised (convert_file (demo_il yield_all [''out.png''])
                     (demo_args\<lparr>input' := ''3'', output' := ''out.png''\<rparr>) True)
       = Some (External ''cannot decode 3'')"
  using batch_write_failure_isolated
    [where il = "demo_il yield_all [''out/3.png'']" and files = files5 and args = demo_args
       and amp = True and items = "map (\<lambda>f. (f, demo_meta f)) files5"
       and fs = "map demo_future files5"
       and il' = "demo_il raise_3 []" and files' = files5 and args' = demo_args
       and amp' = True and items' = "map (\<lambda>f. (f, demo_meta f)) [''1'', ''2'']"
       and fs' = "map demo_future [''1'', ''2'']" and e' = "''cannot decode 3''"
       and rest = "map (\<lambda>f. Yield f (demo_meta f)) [''4'', ''5'']"
       and il'' = "demo_il yield_all [''out.png'']"
       and args'' = "demo_args\<lparr>input' := ''3'', output' := ''out.png''\<rparr>" and amp'' = True
       and e'' = "''cannot decode 3''"]
  by (simp add: demo_future_def demo_defs run_defs failures_def splitext_def lower_def
      lower_char_def upt_rec)

text \<open>
  C2, as the claim states it, fails on a file that cannot be decoded.  An iterator
  has two ways with such a file: leave it out and go on, or raise.  When the loader
  leaves file 3 out, the outputs of files 1, 2, 4, 5 are written and
  \<open>convert_files\<close> raises nothing: it reports no failure.  When the loader raises,
  the failure is reported and the outputs of files 4 and 5 are never written.
  Either way \<open>convert_files\<close> does not both write the four outputs and report the
  failure of file 3.
\<close>

theorem decode_failure_counterexample:
  "written (all_futures (convert_files (demo_il skip_3 []) files5 demo_args True))
     = [''out/1.png'', ''out/2.png'', ''out/4.png'', ''out/5.png'']
   \<and> raised (convert_files (demo_il skip_3 []) files5 demo_args True) = None
   \<and> raised (convert_files (demo_il raise_3 []) files5 demo_args True)
     = Some (External ''cannot decode 3'')
   \<and> written (all_futures (convert_files (demo_il raise_3 []) files5 demo_args True))
     = [''out/1.png'', ''out/2.png'']"
  by (simp add: demo_defs run_defs written_def)


section \<open>List files\<close>

lemma first_columns_eq:
  "first_columns rows files
     = (if [] \<in> set rows then Inl IndexError else Inr (files @ map hd rows))"
  by (induction rows arbitrary: files) (auto split: list.splits)

lemma load_files_rows:
  "csv_reader il txt = Inr rows \<Longrightarrow>
   load_files il txt = (if [] \<in> set rows then Inl IndexError else Inr (map hd rows))"
  by (simp add: load_files_def first_columns_eq)

text \<open>
  C9.  When the input is not a directory and its extension is \<open>.txt\<close> or
  \<open>.csv\<close>, \<open>main\<close> hands \<open>convert_files\<close> the first column of every row that
  \<open>csv.reader\<close> parses from the file, in row order, and nothing else.  (A row
  without a first column, that is a blank line, makes \<open>row[0]\<close> raise
  \<open>IndexError\<close> before anything is converted.)
\<close>

theorem list_file_first_columns:
  "load_model il (method' args) (noise_level args) = Inr ()
   \<and> \<not> isdir il (input' args)
   \<and> snd (splitext (input' args)) \<in> {''.txt'', ''.csv''}
   \<and> csv_reader il (input' args) = Inr rows
   \<longrightarrow> main il args
         = (if [] \<in> set rows then MainRaised IndexError
            else FilesRun (convert_files il (map hd rows) args (\<not> disable_amp args)))"
  by (auto simp: main_def load_files_rows)

text \<open>
  The list file \<open>list.csv\<close> with the rows \<open>1,x\<close>, \<open>2\<close> and \<open>4,y,z\<close>: the
  files converted are \<open>1\<close>, \<open>2\<close>, \<open>4\<close>.
\<close>

theorem list_file_first_columns_witness:
  "load_model (demo_il yield_all []) (method' (demo_args\<lparr>input' := ''list.csv''\<rparr>))
       (noise_level (demo_args\<lparr>input' := ''list.csv''\<rparr>)) = Inr ()
   \<and> \<not> isdir (demo_il yield_all []) ''list.csv''
   \<and> snd (splitext ''list.csv'') = ''.csv''
   \<and> csv_reader (demo_il yield_all []) ''list.csv'' = Inr [ [''1'', ''x''], [''2''], [''4'', ''y'', ''z''] ]
   \<and> main (demo_il yield_all []) (demo_args\<lparr>input' := ''list.csv''\<rparr>)
       = FilesRun (convert_files (demo_il yield_all []) [''1'', ''2'', ''4'']
                    (demo_args\<lparr>input' := ''list.csv''\<rparr>) True)"
  using list_file_first_columns
    [of "demo_il yield_all []" "demo_args\<lparr>input' := ''list.csv''\<rparr>"
        "[ [''1'', ''x''], [''2''], [''4'', ''y'', ''z''] ]"]
  by (simp add: demo_il_def demo_args_def splitext_def rfind_def Let_def upt_rec)

section \<open>Cropping to a multiple of four\<close>

lemma int_mod4: "int n mod 4 = int (n mod 4)"
  by (simp add: zmod_int)

lemma nat_int_crop: "nat (int n - int n mod 4) = n - n mod 4"
  by (simp add: int_mod4 nat_diff_distrib')

lemma int_mod4_zero: "(int n mod 4 = 0) = (n mod 4 = 0)"
  by presburger

lemma int_mod4_le: "int n mod 4 \<le> int n"
  by presburger

lemma expand_pixel_origin:
  "x < width im \<Longrightarrow> y < height im \<Longrightarrow>
   expand_pixel fill im 0 0 (int x) (int y) = pixels im ! y ! x"
  by (simp add: expand_pixel_def)

lemma modcrop_Inr:
  "(modcrop fill im :: 'e error + 'p image) =
     (if width im mod 4 = 0 \<and> height im mod 4 = 0 then Inr im
      else Inr \<lparr>width = width im - width im mod 4, height = height im - height im mod 4,
                pixels = map (\<lambda>y. map (\<lambda>x. pixels im ! y ! x) [0..<width im - width im mod 4])
                             [0..<height im - height im mod 4]\<rparr>)"
proof (cases "width im mod 4 = 0 \<and> height im mod 4 = 0")
  case True
  then show ?thesis by (simp add: modcrop_def Let_def int_mod4_zero)
next
  case False
  have px: "map (\<lambda>y. map (\<lambda>x. expand_pixel fill im 0 0 (int x) (int y))
                [0..<width im - width im mod 4]) [0..<height im - height im mod 4]
            = map (\<lambda>y. map (\<lambda>x. pixels im ! y ! x) [0..<width im - width im mod 4])
                [0..<height im - height im mod 4]"
    by (rule map_cong [OF refl], rule map_cong [OF refl])
       (simp add: expand_pixel_origin less_diff_conv)
  have neg: "\<not> int (width im) - int (width im) mod 4 < 0"
       "\<not> int (height im) - int (height im) mod 4 < 0"
    using int_mod4_le [of "width im"] int_mod4_le [of "height im"] by simp_all
  from False have "(modcrop fill im :: 'e error + 'p image)
      = TF_pad fill im (0, 0, - (int (width im) mod 4), - (int (height im) mod 4))"
    by (auto simp add: modcrop_def Let_def int_mod4_zero)
  also have "\<dots> = Inr \<lparr>width = width im - width im mod 4, height = height im - height im mod 4,
                pixels = map (\<lambda>y. map (\<lambda>x. pixels im ! y ! x) [0..<width im - width im mod 4])
                             [0..<height im - height im mod 4]\<rparr>"
    using neg by (simp add: TF_pad_def Let_def nat_int_crop px del: of_nat_mod)
  finally show ?thesis using False by auto
qed

text \<open>
  C10.  \<open>modcrop\<close> never fails.  The image it returns has the width and the
  height of its argument rounded down to the largest multiple of 4 (\<open>w - w mod 4\<close>:
  a multiple of 4, at most \<open>w\<close>, and no multiple of 4 up to \<open>w\<close> is larger); its
  pixel at every position is the argument's at the same position, so the columns
  and rows lost are those at the right and at the bottom; an argument whose width
  and height are multiples of 4 is returned as it is; and \<open>modcrop\<close> of the result
  is the result.
\<close>

theorem modcrop_largest_multiple_of_4:
  "\<exists>im'. (modcrop fill im :: 'e error + 'p image) = Inr im'
      \<and> width im' = width im - width im mod 4
      \<and> height im' = height im - height im mod 4
      \<and> 4 dvd width im' \<and> width im' \<le> width im
      \<and> (\<forall>n. 4 dvd n \<and> n \<le> width im \<longrightarrow> n \<le> width im')
      \<and> 4 dvd height im' \<and> height im' \<le> height im
      \<and> (\<forall>n. 4 dvd n \<and> n \<le> height im \<longrightarrow> n \<le> height im')
      \<and> (\<forall>x y. x < width im' \<and> y < height im' \<longrightarrow> pixels im' ! y ! x = pixels im ! y ! x)
      \<and> (4 dvd width im \<and> 4 dvd height im \<longrightarrow> im' = im)
      \<and> (modcrop fill im' :: 'e error + 'p image) = Inr im'"
proof -
  have d: "\<And>n::nat. 4 dvd n - n mod 4" by presburger
  have l: "\<And>n m::nat. 4 dvd m \<Longrightarrow> m \<le> n \<Longrightarrow> m \<le> n - n mod 4" by presburger
  have z: "\<And>n::nat. (n - n mod 4) mod 4 = 0" by presburger
  show ?thesis
  proof (cases "width im mod 4 = 0 \<and> height im mod 4 = 0")
    case True
    then show ?thesis
      by (simp add: modcrop_Inr mod_eq_0_iff_dvd)
  next
    case False
    then show ?thesis
      by (auto simp add: modcrop_Inr [of fill im]
            modcrop_Inr [of fill "\<lparr>width = _, height = _, pixels = _\<rparr>"]
            d l z mod_eq_0_iff_dvd [symmetric])
  qed
qed

text \<open>
  A 5 by 6 image is cropped to its top left 4 by 4 block, which is a fixed point of
  \<open>modcrop\<close> and is returned unchanged.
\<close>

theorem modcrop_largest_multiple_of_4_witness:
  "(modcrop 0 im56 :: unit error + nat image) = Inr im44
   \<and> width im44 = 4 \<and> height im44 = 4 \<and> 4 dvd (4::nat) \<and> (4::nat) \<le> width im56
   \<and> (3::nat) < width im44 \<and> (3::nat) < height im44
   \<and> pixels im44 ! 3 ! 3 = pixels im56 ! 3 ! 3
   \<and> 4 dvd width im44 \<and> 4 dvd height im44
   \<and> (modcrop 0 im44 :: unit error + nat image) = Inr im44"
  using modcrop_largest_multiple_of_4 [of 0 im56, where ?'e = unit]
    modcrop_largest_multiple_of_4 [of 0 im44, where ?'e = unit]
  by (simp add: im56_def im44_def modcrop_def TF_pad_def expand_pixel_def Let_def upt_rec)


section \<open>The checkpoint descriptor\<close>

lemma lookup_I2IBaseModel_init:
  "DAList.lookup (kwargs (I2IBaseModel_init kw s off)) = DAList.lookup kw |` (- {''self''})"
  by (simp add: I2IBaseModel_init_def Model.defs lookup_Model_init [symmetric])


lemma construct_Inr:
  assumes "construct registry this tid ps = Inr x"
  obtains k where "registry tid = Some k" and "''self'' \<notin> dom (DAList.lookup ps)"
    and "accepts k (DAList.lookup ps)"
    and "x = (I2IBaseModel_init (DAList.update ''self'' this ps)
                (kind_scale k (DAList.lookup ps)) (kind_offset k (DAList.lookup ps)))\<lparr>name := tid\<rparr>"
  using assms by (auto simp: construct_def split: option.splits if_splits)

lemma lookup_captured:
  "''self'' \<notin> dom (DAList.lookup ps) \<Longrightarrow>
   DAList.lookup (kwargs (I2IBaseModel_init (DAList.update ''self'' this ps) s off)) = DAList.lookup ps"
  by (rule ext) (auto simp: lookup_I2IBaseModel_init restrict_map_def DAList.lookup_update)

text \<open>
  C4.  An instance \<open>x\<close> that \<open>construct\<close> built for a registered kind is
  described by its identifier and its captured arguments, and \<open>construct\<close> on
  that description succeeds with an instance of the same \<open>i2i_scale\<close> and
  \<open>i2i_offset\<close>, hence of the same described \<open>scale\<close> and \<open>offset\<close>.
\<close>

theorem descriptor_round_trip:
  "construct registry this tid ps = Inr x \<longrightarrow>
     (\<exists>y. construct registry this' (transform_id (describe x)) (params (describe x)) = Inr y
        \<and> i2i_scale y = i2i_scale x \<and> i2i_offset y = i2i_offset x
        \<and> scale (describe y) = scale (describe x) \<and> offset (describe y) = offset (describe x))"
proof
  assume "construct registry this tid ps = Inr x"
  then obtain k where k: "registry tid = Some k" and noself: "''self'' \<notin> dom (DAList.lookup ps)"
    and acc: "accepts k (DAList.lookup ps)"
    and x: "x = (I2IBaseModel_init (DAList.update ''self'' this ps)
                (kind_scale k (DAList.lookup ps)) (kind_offset k (DAList.lookup ps)))\<lparr>name := tid\<rparr>"
    by (rule construct_Inr)
  have cap: "DAList.lookup (get_kwargs x) = DAList.lookup ps"
    by (simp add: x get_kwargs_def lookup_captured [OF noself])
  have nm: "name x = tid" by (simp add: x)
  have geo: "i2i_scale x = kind_scale k (DAList.lookup ps)" "i2i_offset x = kind_offset k (DAList.lookup ps)"
    by (simp_all add: x I2IBaseModel_init_def Model.defs I2IBaseModel.defs)
  let ?y = "(I2IBaseModel_init (DAList.update ''self'' this' (get_kwargs x))
                (kind_scale k (DAList.lookup ps)) (kind_offset k (DAList.lookup ps)))\<lparr>name := tid\<rparr>"
  have "construct registry this' (transform_id (describe x)) (params (describe x)) = Inr ?y"
    using noself acc by (simp add: construct_def describe_def nm k cap)
  moreover have "i2i_scale ?y = i2i_scale x" "i2i_offset ?y = i2i_offset x"
    by (simp_all add: geo I2IBaseModel_init_def Model.defs I2IBaseModel.defs)
  ultimately show "\<exists>y. construct registry this' (transform_id (describe x)) (params (describe x)) = Inr y
        \<and> i2i_scale y = i2i_scale x \<and> i2i_offset y = i2i_offset x
        \<and> scale (describe y) = scale (describe x) \<and> offset (describe y) = offset (describe x)"
    by (intro exI [of _ ?y]) (simp add: describe_def)
qed

text \<open>
  The kind \<open>demo.upscale\<close> built with \<open>in_channels = 3\<close> has scale 2 and offset
  12, and so has the instance rebuilt from its description.
\<close>

theorem descriptor_round_trip_witness:
  "\<exists>x y. construct demo_registry 0 ''demo.upscale'' (DAList.update ''in_channels'' 3 DAList.empty) = Inr x
     \<and> construct demo_registry 1 (transform_id (describe x)) (params (describe x)) = Inr y
     \<and> i2i_scale x = 2 \<and> i2i_offset x = 12 \<and> i2i_scale y = 2 \<and> i2i_offset y = 12"
proof -
  let ?x = "(I2IBaseModel_init (DAList.update ''self'' 0 (DAList.update ''in_channels'' 3 DAList.empty))
               2 12)\<lparr>name := ''demo.upscale''\<rparr> :: nat I2IBaseModel"
  have c: "construct demo_registry 0 ''demo.upscale'' (DAList.update ''in_channels'' 3 DAList.empty) = Inr ?x"
    by (simp add: construct_def demo_registry_def dom_def DAList.lookup_update)
  have g: "i2i_scale ?x = 2" "i2i_offset ?x = 12"
    by (simp_all add: I2IBaseModel_init_def Model.defs I2IBaseModel.defs)
  from descriptor_round_trip
    [of demo_registry 0 "''demo.upscale''" "DAList.update ''in_channels'' 3 DAList.empty" ?x 1] c
  obtain y where "construct demo_registry 1 (transform_id (describe ?x)) (params (describe ?x)) = Inr y"
    and "i2i_scale y = i2i_scale ?x" and "i2i_offset y = i2i_offset ?x"
    by blast
  with c g show ?thesis by (intro exI [of _ ?x] exI [of _ y]) simp
qed

section \<open>The bounded queue\<close>

lemma queue_step_bounded:
  "length (queue s) \<le> N \<Longrightarrow> length (queue (queue_step N s a)) \<le> N"
  by (cases a) (auto split: list.splits)

lemma queue_step_order:
  "popped (queue_step N s a) @ queue (queue_step N s a) @ undecoded (queue_step N s a)
     = popped s @ queue s @ undecoded s"
  by (cases a) (auto split: list.splits)

lemma foldl_queue_bounded:
  "length (queue s) \<le> N \<Longrightarrow> length (queue (foldl (queue_step N) s schedule)) \<le> N"
  by (induction schedule arbitrary: s) (simp_all add: queue_step_bounded)

lemma foldl_queue_order:
  "popped (foldl (queue_step N) s schedule) @ queue (foldl (queue_step N) s schedule)
     @ undecoded (foldl (queue_step N) s schedule)
   = popped s @ queue s @ undecoded s"
  by (induction schedule arbitrary: s) (simp_all add: queue_step_order)

text \<open>
  C8.  \<open>convert_files\<close> builds its loader with the capacity 128, and under every
  schedule of pushes and pops the queue of that capacity never holds more than 128
  decoded images, however many files there are; no image is lost or reordered on
  the way.
\<close>

theorem queue_never_exceeds_capacity:
  "max_queue_size = 128
   \<and> length (queue (queue_run max_queue_size xs schedule)) \<le> max_queue_size
   \<and> popped (queue_run max_queue_size xs schedule) @ queue (queue_run max_queue_size xs schedule)
       @ undecoded (queue_run max_queue_size xs schedule) = xs"
  using foldl_queue_bounded [of "queue_start xs" max_queue_size schedule]
    foldl_queue_order [of max_queue_size "queue_start xs" schedule]
  by (simp add: queue_run_def) (simp add: queue_start_def max_queue_size_def)

text \<open>A queue of capacity 2: the third push waits until a pop has made room.\<close>

lemma queue_blocks_when_full:
  "queue (queue_run 2 [1, 2, 3 :: nat] [Push, Push, Push]) = [1, 2]
   \<and> queue (queue_run 2 [1, 2, 3 :: nat] [Push, Push, Push, Pop, Push]) = [2, 3]"
  by (simp add: queue_run_def queue_start_def)

end
